theory Spec2Isabelle
  imports Main "HOL-Library.Char_ord" "HOL-Library.AList"
begin

section \<open>Strings as the program sees them\<close>

text \<open>
  A JavaScript string is modelled as a \<^typ>\<open>string\<close>, one \<^typ>\<open>char\<close> per code unit.
  The model covers the code units below 256 (ASCII and Latin-1), which is where the
  character classes of the source's regular expressions, \<^verbatim>\<open>trim\<close> and
  \<^verbatim>\<open>toLowerCase\<close> are given below. \<^verbatim>\<open>length\<close> counts code units.
\<close>

definition is_lower :: "char \<Rightarrow> bool" where
  "is_lower c \<longleftrightarrow> CHR ''a'' \<le> c \<and> c \<le> CHR ''z''"

definition is_upper :: "char \<Rightarrow> bool" where
  "is_upper c \<longleftrightarrow> CHR ''A'' \<le> c \<and> c \<le> CHR ''Z''"

definition is_digit :: "char \<Rightarrow> bool" where
  "is_digit c \<longleftrightarrow> CHR ''0'' \<le> c \<and> c \<le> CHR ''9''"

text \<open>The class \<^verbatim>\<open>[a-zA-Z]\<close>.\<close>

definition is_letter :: "char \<Rightarrow> bool" where
  "is_letter c \<longleftrightarrow> is_lower c \<or> is_upper c"

text \<open>
  The class \<^verbatim>\<open>\s\<close>, which is also what \<^verbatim>\<open>trim\<close> strips: tab, line feed,
  vertical tab, form feed, carriage return, space and the no-break space.
\<close>

definition is_space :: "char \<Rightarrow> bool" where
  "is_space c \<longleftrightarrow> c \<in> set [CHR 0x09, CHR 0x0A, CHR 0x0B, CHR 0x0C, CHR 0x0D, CHR 0x20, CHR 0xA0]"

text \<open>
  \<^verbatim>\<open>toLowerCase\<close> on one code unit: \<^verbatim>\<open>A-Z\<close> and the Latin-1 capitals
  (\<^verbatim>\<open>0xC0-0xDE\<close> without the multiplication sign \<^verbatim>\<open>0xD7\<close>) move up by 32.
\<close>

definition lower_char :: "char \<Rightarrow> char" where
  "lower_char c =
     (if is_upper c \<or> (CHR 0xC0 \<le> c \<and> c \<le> CHR 0xDE \<and> c \<noteq> CHR 0xD7)
      then char_of (of_char c + (32 :: nat)) else c)"

definition toLowerCase :: "string \<Rightarrow> string" where
  "toLowerCase s = map lower_char s"

definition trim :: "string \<Rightarrow> string" where
  "trim s = rev (dropWhile is_space (rev (dropWhile is_space s)))"

text \<open>
  \<^verbatim>\<open>s.split(c)\<close> for a one-character separator: the pieces between the separators,
  empty pieces included; the result is never empty.
\<close>

primrec split_on :: "char \<Rightarrow> string \<Rightarrow> string list" where
  "split_on c [] = [[]]"
| "split_on c (x # xs) =
     (if x = c then [] # split_on c xs
      else (case split_on c xs of
              [] \<Rightarrow> [[x]]
            | piece # pieces \<Rightarrow> (x # piece) # pieces))"

section \<open>Domain availability estimator\<close>

datatype status = Available | Taken | Unknown

definition definitelyTaken :: "string list" where
  "definitelyTaken =
    [''google.com'', ''facebook.com'', ''amazon.com'', ''microsoft.com'', ''apple.com'',
     ''netflix.com'', ''twitter.com'', ''instagram.com'', ''linkedin.com'', ''youtube.com'',
     ''github.com'', ''stackoverflow.com'', ''reddit.com'', ''wikipedia.org'', ''wordpress.com'',
     ''shopify.com'', ''stripe.com'', ''slack.com'', ''zoom.com'', ''dropbox.com'',
     ''airbnb.com'', ''uber.com'', ''lyft.com'', ''spotify.com'', ''discord.com'',
     ''twitch.com'', ''tiktok.com'', ''snapchat.com'', ''pinterest.com'', ''whatsapp.com'']"

definition commonWords :: "string list" where
  "commonWords =
    [''the'', ''and'', ''for'', ''you'', ''me'', ''my'', ''we'', ''us'', ''it'', ''is'',
     ''in'', ''on'', ''at'', ''to'', ''of'', ''a'', ''an'', ''com'', ''net'', ''org'']"

text \<open>The alternatives of the source's pattern \<^verbatim>\<open>/^(cash|flow|...)$/i\<close>.\<close>

definition genericWords :: "string list" where
  "genericWords =
    [''cash'', ''flow'', ''hq'', ''pro'', ''app'', ''web'', ''tech'', ''data'', ''cloud'',
     ''team'', ''work'', ''home'', ''shop'', ''buy'', ''get'', ''go'', ''my'', ''me'', ''us'', ''we'']"

text \<open>
  The pattern is anchored at both ends and case-insensitive, and every alternative is a
  lower-case ASCII word: a string matches when its lower-case form is one of them.
\<close>

definition matches_generic :: "string \<Rightarrow> bool" where
  "matches_generic s \<longleftrightarrow> toLowerCase s \<in> set genericWords"

definition checkDomainAvailability :: "string \<Rightarrow> status" where
  "checkDomainAvailability domain =
     (let domainName = toLowerCase domain;
          domainWithoutExt = hd (split_on CHR ''.'' domainName)
      in if domainName \<in> set definitelyTaken then Taken
         else if length domainWithoutExt \<le> 4 then Taken
         else if domainWithoutExt \<in> set commonWords then Taken
         else
           (let extension = last (split_on CHR ''.'' domainName)
            in if extension = ''com'' then
                 (if length domainWithoutExt \<le> 6 \<or> matches_generic domainWithoutExt
                  then Taken else Available)
               else if extension \<in> set [''io'', ''co'', ''app'', ''dev'', ''tech'', ''ai'', ''me'']
                 then Available
               else if extension \<in> set [''net'', ''org''] then
                 (if length domainWithoutExt \<le> 5 then Taken else Available)
               else Available))"

subsection \<open>The decision procedure of the specification\<close>

text \<open>
  The specification gives the estimator as an ordered list of rules, the first match
  winning. Each rule reads the lower-cased domain and answers with a status or with
  no match. The name portion is the text before the first dot, the extension the text
  after the last one.
\<close>

definition name_portion :: "string \<Rightarrow> string" where
  "name_portion d = takeWhile (\<lambda>c. c \<noteq> CHR ''.'') d"

definition extension_of :: "string \<Rightarrow> string" where
  "extension_of d = rev (takeWhile (\<lambda>c. c \<noteq> CHR ''.'') (rev d))"

type_synonym rule = "string \<Rightarrow> status option"

definition rule_blocklist :: rule where
  "rule_blocklist d = (if d \<in> set definitelyTaken then Some Taken else None)"

definition rule_short_name :: rule where
  "rule_short_name d = (if length (name_portion d) \<le> 4 then Some Taken else None)"

definition rule_stop_word :: rule where
  "rule_stop_word d = (if name_portion d \<in> set commonWords then Some Taken else None)"

definition rule_com :: rule where
  "rule_com d =
     (if extension_of d = ''com''
      then Some (if length (name_portion d) \<le> 6 \<or> matches_generic (name_portion d)
                 then Taken else Available)
      else None)"

definition rule_new_extension :: rule where
  "rule_new_extension d =
     (if extension_of d \<in> set [''io'', ''co'', ''app'', ''dev'', ''tech'', ''ai'', ''me'']
      then Some Available else None)"

definition rule_net_org :: rule where
  "rule_net_org d =
     (if extension_of d \<in> set [''net'', ''org'']
      then Some (if length (name_portion d) \<le> 5 then Taken else Available)
      else None)"

definition rule_other :: rule where
  "rule_other d = Some Available"

definition cascade :: "rule list" where
  "cascade = [rule_blocklist, rule_short_name, rule_stop_word, rule_com,
              rule_new_extension, rule_net_org, rule_other]"

primrec first_match :: "rule list \<Rightarrow> string \<Rightarrow> status option" where
  "first_match [] d = None"
| "first_match (r # rs) d = (case r d of Some s \<Rightarrow> Some s | None \<Rightarrow> first_match rs d)"

definition estimator_cascade :: "string \<Rightarrow> status" where
  "estimator_cascade domain =
     (case first_match cascade (toLowerCase domain) of Some s \<Rightarrow> s | None \<Rightarrow> Unknown)"

section \<open>Multi-extension prober\<close>

definition extensions :: "string list" where
  "extensions = [''.com'', ''.net'', ''.org'', ''.io'', ''.co'', ''.app'', ''.dev'', ''.tech'', ''.ai'', ''.me'']"

text \<open>
  \<^verbatim>\<open>checkMultipleDomains\<close>: the name is lower-cased and stripped of everything outside
  \<^verbatim>\<open>[a-z0-9]\<close>, and each extension is probed in the declared order. The result object
  is an association list in insertion order. The estimator returns for every input, so
  the handler that would record \<^verbatim>\<open>unknown\<close> is never entered; the pacing delay has
  no effect on the result.
\<close>

definition checkMultipleDomains :: "string \<Rightarrow> (string \<times> status) list" where
  "checkMultipleDomains name =
     (let cleanName = filter (\<lambda>c. is_lower c \<or> is_digit c) (toLowerCase name)
      in map (\<lambda>ext. (ext, checkDomainAvailability (cleanName @ ext))) extensions)"

section \<open>Name sanitizer\<close>

text \<open>\<^verbatim>\<open>replace(/^[^a-zA-Z]*/, '')\<close>: the longest run of non-letters at the start goes.\<close>

definition strip_leading :: "string \<Rightarrow> string" where
  "strip_leading s = dropWhile (\<lambda>c. \<not> is_letter c) s"

text \<open>The class \<^verbatim>\<open>[^a-zA-Z0-9\s-]\<close>.\<close>

definition is_trailing_junk :: "char \<Rightarrow> bool" where
  "is_trailing_junk c \<longleftrightarrow> \<not> (is_letter c \<or> is_digit c \<or> is_space c \<or> c = CHR ''-'')"

text \<open>
  \<^verbatim>\<open>replace(/[^a-zA-Z0-9\s-]*$/, '')\<close>: the pattern is tried at each position from the
  left and matches at the first one from which only junk characters follow up to the end
  of the string; that match is removed.
\<close>

primrec strip_trailing :: "string \<Rightarrow> string" where
  "strip_trailing [] = []"
| "strip_trailing (x # xs) =
     (if list_all is_trailing_junk (x # xs) then [] else x # strip_trailing xs)"

definition cleanName_of :: "string \<Rightarrow> string" where
  "cleanName_of nameText =
     trim (hd (split_on CHR ''.'' (hd (split_on CHR 0x0A
       (trim (strip_trailing (strip_leading nameText)))))))"

definition unwantedWords :: "string list" where
  "unwantedWords = [''here'', ''suggest'', ''example'', ''name'', ''names'', ''business'',
                    ''company'', ''saas'', ''startup'']"

text \<open>The primary loop's filter: \<open>None\<close> is the \<^verbatim>\<open>continue\<close>.\<close>

definition sanitize_primary :: "string \<Rightarrow> string option" where
  "sanitize_primary nameText =
     (let cleanName = cleanName_of nameText
      in if length cleanName > 30 \<or> length cleanName < 2 \<or>
            list_ex (\<lambda>word. toLowerCase cleanName = word) unwantedWords
         then None else Some cleanName)"

text \<open>The fallback loop's filter, as the source has it.\<close>

definition sanitize_fallback :: "string \<Rightarrow> string option" where
  "sanitize_fallback nameText =
     (let cleanName = cleanName_of nameText
      in if length cleanName > 30 \<or> length cleanName < 2 then None else Some cleanName)"

section \<open>Application state\<close>

text \<open>
  \<^verbatim>\<open>GeneratedName\<close>. The field \<^verbatim>\<open>id\<close> is written \<open>id'\<close>; the timestamp is the
  date's time value; \<^verbatim>\<open>domains\<close> keeps the insertion order of its keys.
\<close>

record GeneratedName =
  id' :: string
  name :: string
  category :: string
  timestamp :: int
  isFavorite :: bool
  rating :: int
  ratingComment :: string
  domains :: "(string \<times> status) list"

text \<open>
  \<^verbatim>\<open>AppState\<close>. An entry of \<^verbatim>\<open>archivedNames\<close> is \<open>Some\<close> candidate or \<open>None\<close>
  for \<^verbatim>\<open>undefined\<close>: the source's type says \<^verbatim>\<open>GeneratedName[]\<close>, but \<^verbatim>\<open>archiveName\<close>
  stores the result of a \<^verbatim>\<open>find\<close> under a type assertion, and that result can be
  \<^verbatim>\<open>undefined\<close>.
\<close>

record AppState =
  generatedNames :: "GeneratedName list"
  favorites :: "string list"
  archivedNames :: "GeneratedName option list"
  darkMode :: bool

definition emptyState :: AppState where
  "emptyState = \<lparr>generatedNames = [], favorites = [], archivedNames = [], darkMode = False\<rparr>"

datatype js_error = SyntaxError | TypeError | ServiceError

section \<open>Generation pipeline\<close>

datatype name_style = Modern | Classic | Invented | Compound

datatype name_length = Short | Medium | Long

primrec style_text :: "name_style \<Rightarrow> string" where
  "style_text Modern = ''modern''"
| "style_text Classic = ''classic''"
| "style_text Invented = ''invented''"
| "style_text Compound = ''compound''"

primrec length_text :: "name_length \<Rightarrow> string" where
  "length_text Short = ''short''"
| "length_text Medium = ''medium''"
| "length_text Long = ''long''"

text \<open>The component state that \<^verbatim>\<open>generateName\<close> reads.\<close>

record params =
  selectedCategory :: string
  nameStyle :: name_style
  nameLength :: name_length
  keyword :: string

definition categories :: "(string \<times> string) list" where
  "categories =
    [(''tech'', ''Technology''), (''finance'', ''Finance''), (''health'', ''Healthcare''),
     (''education'', ''Education''), (''marketing'', ''Marketing''), (''creative'', ''Creative''),
     (''productivity'', ''Productivity''), (''social'', ''Social'')]"

definition categoryName_of :: "params \<Rightarrow> string" where
  "categoryName_of p =
     (case map_of categories (selectedCategory p) of Some n \<Rightarrow> n | None \<Rightarrow> ''Technology'')"

definition primaryPrompt :: "params \<Rightarrow> string" where
  "primaryPrompt p =
     ''Generate 5 creative business names for a '' @ toLowerCase (categoryName_of p) @
     '' SaaS company. '' @
     ''Style: '' @ style_text (nameStyle p) @ ''. Length: '' @ length_text (nameLength p) @ ''. '' @
     (if trim (keyword p) \<noteq> []
      then ''One name should include '' @ [CHR 0x22] @ trim (keyword p) @ [CHR 0x22] @ ''. ''
      else []) @
     ''Examples: CloudFlow, DataSync, TeamHub, WorkSpace, LearnPro. '' @
     ''Return exactly 5 names, one per line, no other text.''"

definition fallbackPrompt :: "params \<Rightarrow> string" where
  "fallbackPrompt p =
     ''Give me 5 short business names for '' @ toLowerCase (categoryName_of p) @
     ''. Examples: CloudFlow, DataSync, TeamHub. One per line.''"

text \<open>
  What the source reads from its surroundings while it builds candidates: \<open>mint_id env k\<close>
  is the value of \<^verbatim>\<open>Date.now().toString() + Math.random()\<close> and \<open>clock env k\<close> that of
  \<^verbatim>\<open>new Date()\<close> when the candidate with index \<open>k\<close> of the batch is built.
\<close>

record env =
  mint_id :: "nat \<Rightarrow> string"
  clock :: "nat \<Rightarrow> int"

definition new_candidate :: "env \<Rightarrow> string \<Rightarrow> string \<Rightarrow> nat \<Rightarrow> string \<Rightarrow> GeneratedName" where
  "new_candidate e categoryName suffix k cleanName =
     \<lparr>id' = mint_id e k @ suffix, name = cleanName, category = categoryName,
      timestamp = clock e k, isFavorite = False, rating = 0, ratingComment = [],
      domains = checkMultipleDomains cleanName\<rparr>"

text \<open>\<^verbatim>\<open>response.split('\n').filter(line => line.trim().length > 0).slice(0, 5)\<close>\<close>

definition response_lines :: "string \<Rightarrow> string list" where
  "response_lines response =
     take 5 (filter (\<lambda>line. length (trim line) > 0) (split_on CHR 0x0A response))"

text \<open>The two loops; the accumulator is the array \<^verbatim>\<open>generatedNames\<close> that both push to.\<close>

primrec primary_loop :: "env \<Rightarrow> string \<Rightarrow> string list \<Rightarrow> GeneratedName list \<Rightarrow> GeneratedName list" where
  "primary_loop e categoryName [] acc = acc"
| "primary_loop e categoryName (nameText # rest) acc =
     (case sanitize_primary nameText of
        None \<Rightarrow> primary_loop e categoryName rest acc
      | Some cleanName \<Rightarrow>
          primary_loop e categoryName rest
            (acc @ [new_candidate e categoryName [] (length acc) cleanName]))"

primrec fallback_loop :: "env \<Rightarrow> string \<Rightarrow> string list \<Rightarrow> GeneratedName list \<Rightarrow> GeneratedName list" where
  "fallback_loop e categoryName [] acc = acc"
| "fallback_loop e categoryName (nameText # rest) acc =
     (case sanitize_fallback nameText of
        None \<Rightarrow> fallback_loop e categoryName rest acc
      | Some cleanName \<Rightarrow>
          fallback_loop e categoryName rest
            (acc @ [new_candidate e categoryName ''fallback'' (length acc) cleanName]))"

text \<open>The candidates of the primary round for a response.\<close>

definition primary_candidates :: "env \<Rightarrow> params \<Rightarrow> string \<Rightarrow> GeneratedName list" where
  "primary_candidates e p response =
     primary_loop e (categoryName_of p) (response_lines response) []"

text \<open>
  The state update at the end of a successful generation:
  \<^verbatim>\<open>[...generatedNames, ...prev.generatedNames].slice(0, 20)\<close>.
\<close>

definition mergeHistory :: "GeneratedName list \<Rightarrow> AppState \<Rightarrow> AppState" where
  "mergeHistory batch prev = prev\<lparr>generatedNames := take 20 (batch @ generatedNames prev)\<rparr>"

text \<open>
  \<^verbatim>\<open>generateName\<close> calls \<^verbatim>\<open>generateNameWithCohere\<close>, which is defined further
  down from its source. Here it is the parameter \<open>svc\<close>: a call with a prompt returns the
  response text or throws. Every call is logged.
\<close>

type_synonym service = "string \<Rightarrow> js_error + string"

definition call_service :: "service \<Rightarrow> string \<Rightarrow> string list \<Rightarrow> (js_error + string) \<times> string list" where
  "call_service svc prompt log = (svc prompt, log @ [prompt])"

datatype notification = Generated nat | FailedToGenerate

text \<open>
  What a run of \<^verbatim>\<open>generateName\<close> leaves behind: the application state, the service
  calls it made, and the toast it showed (\<open>Generated n\<close> for the success toast with the
  batch size, \<open>FailedToGenerate\<close> for the error toast of the \<^verbatim>\<open>catch\<close> block).
\<close>

record outcome =
  new_state :: AppState
  service_calls :: "string list"
  toast :: notification

text \<open>
  \<^verbatim>\<open>generateName\<close>. One \<^verbatim>\<open>try\<close> block holds both service calls and the state
  update; its \<^verbatim>\<open>catch\<close> shows the error toast and leaves the state as it was.
\<close>

definition generateName :: "env \<Rightarrow> service \<Rightarrow> params \<Rightarrow> AppState \<Rightarrow> outcome" where
  "generateName e svc p prev =
     (let categoryName = categoryName_of p;
          (result, log1) = call_service svc (primaryPrompt p) []
      in case result of
           Inl err \<Rightarrow> \<lparr>new_state = prev, service_calls = log1, toast = FailedToGenerate\<rparr>
         | Inr response \<Rightarrow>
             (let generated = primary_loop e categoryName (response_lines response) []
              in if length generated < 3 then
                   (let (fallbackResult, log2) = call_service svc (fallbackPrompt p) log1
                    in case fallbackResult of
                         Inl err \<Rightarrow>
                           \<lparr>new_state = prev, service_calls = log2, toast = FailedToGenerate\<rparr>
                       | Inr fallbackResponse \<Rightarrow>
                           (let batch = fallback_loop e categoryName
                                          (response_lines fallbackResponse) generated
                            in \<lparr>new_state = mergeHistory batch prev, service_calls = log2,
                                toast = Generated (length batch)\<rparr>))
                 else \<lparr>new_state = mergeHistory generated prev, service_calls = log1,
                       toast = Generated (length generated)\<rparr>))"

section \<open>Lifecycle operations\<close>

definition toggleFavorite :: "string \<Rightarrow> AppState \<Rightarrow> AppState" where
  "toggleFavorite nameId prev =
     (let updatedNames =
            map (\<lambda>n. if id' n = nameId then n\<lparr>isFavorite := \<not> isFavorite n\<rparr> else n)
              (generatedNames prev);
          updatedFavorites = map id' (filter isFavorite updatedNames)
      in prev\<lparr>generatedNames := updatedNames, favorites := updatedFavorites\<rparr>)"

definition archiveName :: "string \<Rightarrow> AppState \<Rightarrow> AppState" where
  "archiveName nameId prev =
     prev\<lparr>generatedNames := filter (\<lambda>n. id' n \<noteq> nameId) (generatedNames prev),
          archivedNames := archivedNames prev @ [find (\<lambda>n. id' n = nameId) (generatedNames prev)]\<rparr>"

text \<open>
  Reading \<^verbatim>\<open>name.id\<close> of an \<^verbatim>\<open>undefined\<close> entry throws a \<^verbatim>\<open>TypeError\<close>;
  \<^verbatim>\<open>find\<close> stops at the first match, \<^verbatim>\<open>filter\<close> visits every entry.
\<close>

primrec find_archived :: "string \<Rightarrow> GeneratedName option list \<Rightarrow> js_error + GeneratedName option" where
  "find_archived nameId [] = Inr None"
| "find_archived nameId (entry # rest) =
     (case entry of
        None \<Rightarrow> Inl TypeError
      | Some n \<Rightarrow> if id' n = nameId then Inr (Some n) else find_archived nameId rest)"

primrec remove_archived :: "string \<Rightarrow> GeneratedName option list \<Rightarrow> js_error + GeneratedName option list" where
  "remove_archived nameId [] = Inr []"
| "remove_archived nameId (entry # rest) =
     (case entry of
        None \<Rightarrow> Inl TypeError
      | Some n \<Rightarrow>
          (case remove_archived nameId rest of
             Inl err \<Rightarrow> Inl err
           | Inr kept \<Rightarrow> Inr (if id' n \<noteq> nameId then Some n # kept else kept)))"

text \<open>
  \<^verbatim>\<open>restoreName\<close>, run on the state it was rendered with: nothing changes when no
  archived entry has the id.
\<close>

definition restoreName :: "string \<Rightarrow> AppState \<Rightarrow> js_error + AppState" where
  "restoreName nameId prev =
     (case find_archived nameId (archivedNames prev) of
        Inl err \<Rightarrow> Inl err
      | Inr None \<Rightarrow> Inr prev
      | Inr (Some archivedName) \<Rightarrow>
          (case remove_archived nameId (archivedNames prev) of
             Inl err \<Rightarrow> Inl err
           | Inr kept \<Rightarrow>
               Inr (prev\<lparr>archivedNames := kept,
                         generatedNames := generatedNames prev @ [archivedName]\<rparr>)))"

text \<open>The index that \<^verbatim>\<open>toggleFavorite\<close> computes: the ids of the active favorites.\<close>

definition derivedFavorites :: "AppState \<Rightarrow> string list" where
  "derivedFavorites s = map id' (filter isFavorite (generatedNames s))"

section \<open>Sample data\<close>

text \<open>A candidate and a state to evaluate the operations on.\<close>

definition sample :: "string \<Rightarrow> bool \<Rightarrow> GeneratedName" where
  "sample i fav =
     \<lparr>id' = i, name = ''CloudFlow'', category = ''Technology'', timestamp = 0,
      isFavorite = fav, rating = 0, ratingComment = [], domains = []\<rparr>"

definition sampleState :: "GeneratedName list \<Rightarrow> AppState" where
  "sampleState active = \<lparr>generatedNames = active, favorites = map id' (filter isFavorite active),
                          archivedNames = [], darkMode = False\<rparr>"

definition sampleEnv :: env where
  "sampleEnv = \<lparr>mint_id = (\<lambda>k. ''17000000000000.'' @ replicate (Suc k) CHR ''7''), clock = (\<lambda>k. 1700000000000)\<rparr>"

definition sampleParams :: params where
  "sampleParams = \<lparr>selectedCategory = ''tech'', nameStyle = Modern, nameLength = Medium, keyword = []\<rparr>"

text \<open>A service that answers the primary prompt with one name and fails on any other prompt.\<close>

definition failingFallback :: service where
  "failingFallback prompt =
     (if prompt = primaryPrompt sampleParams then Inr ''CloudFlow'' else Inl ServiceError)"

text \<open>A service with an empty primary answer and a denylisted word in its fallback answer.\<close>

definition denylistedFallback :: service where
  "denylistedFallback prompt =
     (if prompt = primaryPrompt sampleParams then Inr [] else Inr ''name'')"

text \<open>The response of the specification's end-to-end scenario, and a service that gives it.\<close>

definition scenarioResponse :: string where
  "scenarioResponse =
     ''CloudFlow'' @ [CHR 0x0A] @ ''DataSync'' @ [CHR 0x0A] @ ''TeamHub'' @ [CHR 0x0A] @
     ''here'' @ [CHR 0x0A] @ ''x''"

definition scenarioService :: service where
  "scenarioService prompt = Inr scenarioResponse"

section \<open>Stored state\<close>

text \<open>
  What \<^verbatim>\<open>JSON.parse\<close> returns is untyped. A value is one of the JSON values, or
  \<^verbatim>\<open>undefined\<close> (what reading a missing property gives), or a \<^verbatim>\<open>Date\<close> built from
  a value. An object is an association list in key order; numbers are integers, as the
  ratings of the data model are.
\<close>

datatype jsval =
    JUndefined
  | JNull
  | JBool bool
  | JNum int
  | JStr string
  | JArr "jsval list"
  | JObj "(string \<times> jsval) list"
  | JDate jsval

primrec truthy :: "jsval \<Rightarrow> bool" where
  "truthy JUndefined = False"
| "truthy JNull = False"
| "truthy (JBool b) = b"
| "truthy (JNum n) = (n \<noteq> 0)"
| "truthy (JStr s) = (s \<noteq> [])"
| "truthy (JArr vs) = True"
| "truthy (JObj kvs) = True"
| "truthy (JDate v) = True"

text \<open>\<^verbatim>\<open>a || b\<close>\<close>

definition js_or :: "jsval \<Rightarrow> jsval \<Rightarrow> jsval" where
  "js_or a b = (if truthy a then a else b)"

definition nullish :: "jsval \<Rightarrow> bool" where
  "nullish v \<longleftrightarrow> v = JUndefined \<or> v = JNull"

text \<open>
  Reading one of the property names the loader uses (\<^verbatim>\<open>generatedNames\<close>,
  \<^verbatim>\<open>favorites\<close>, \<^verbatim>\<open>archivedNames\<close>, \<^verbatim>\<open>darkMode\<close>, \<^verbatim>\<open>timestamp\<close>,
  \<^verbatim>\<open>domains\<close>, \<^verbatim>\<open>rating\<close>, \<^verbatim>\<open>ratingComment\<close>, \<^verbatim>\<open>domainStatus\<close>) from a value
  that is neither \<^verbatim>\<open>null\<close> nor \<^verbatim>\<open>undefined\<close>: an object gives what it holds under
  the key, anything else gives \<^verbatim>\<open>undefined\<close>.
\<close>

definition read_prop :: "jsval \<Rightarrow> string \<Rightarrow> jsval" where
  "read_prop v k =
     (case v of
        JObj kvs \<Rightarrow> (case map_of kvs k of None \<Rightarrow> JUndefined | Some x \<Rightarrow> x)
      | _ \<Rightarrow> JUndefined)"

text \<open>Reading a property of \<^verbatim>\<open>null\<close> or \<^verbatim>\<open>undefined\<close> throws.\<close>

definition get_prop :: "jsval \<Rightarrow> string \<Rightarrow> js_error + jsval" where
  "get_prop v k = (if nullish v then Inl TypeError else Inr (read_prop v k))"

function decimal :: "nat \<Rightarrow> string" where
  "decimal n = (if n < 10 then [char_of (48 + n)] else decimal (n div 10) @ [char_of (48 + n mod 10)])"
  by pat_completeness auto
termination
  by (relation "measure (\<lambda>n. n)") auto

text \<open>
  The own enumerable properties that \<^verbatim>\<open>{...v}\<close> copies: those of an object, the
  indexed elements of an array or of a string, and none for any other value.
\<close>

definition spread :: "jsval \<Rightarrow> (string \<times> jsval) list" where
  "spread v =
     (case v of
        JObj kvs \<Rightarrow> kvs
      | JArr vs \<Rightarrow> zip (map decimal [0 ..< length vs]) vs
      | JStr s \<Rightarrow> zip (map decimal [0 ..< length s]) (map (\<lambda>c. JStr [c]) s)
      | _ \<Rightarrow> [])"

text \<open>
  Setting a property in an object literal after a spread: an existing key keeps its place
  and takes the new value, a new key goes to the end.
\<close>

definition set_prop :: "string \<Rightarrow> jsval \<Rightarrow> (string \<times> jsval) list \<Rightarrow> (string \<times> jsval) list" where
  "set_prop k x kvs = AList.update k x kvs"

definition and_then :: "js_error + 'a \<Rightarrow> ('a \<Rightarrow> js_error + 'b) \<Rightarrow> js_error + 'b" where
  "and_then r f = (case r of Inl err \<Rightarrow> Inl err | Inr x \<Rightarrow> f x)"

text \<open>\<^verbatim>\<open>xs.map(f)\<close> for a callback that can throw: the first throw ends the map.\<close>

primrec map_throwing :: "('a \<Rightarrow> js_error + 'b) \<Rightarrow> 'a list \<Rightarrow> js_error + 'b list" where
  "map_throwing f [] = Inr []"
| "map_throwing f (x # xs) =
     and_then (f x) (\<lambda>y. and_then (map_throwing f xs) (\<lambda>ys. Inr (y # ys)))"

text \<open>The callback of \<^verbatim>\<open>migrateOldData\<close>; its argument \<^verbatim>\<open>name\<close> is \<open>entry\<close> here.\<close>

definition migrate_entry :: "jsval \<Rightarrow> js_error + jsval" where
  "migrate_entry entry =
     and_then (get_prop entry ''domains'') (\<lambda>d.
       if truthy d then
         Inr (JObj
           (set_prop ''ratingComment'' (js_or (read_prop entry ''ratingComment'') (JStr []))
           (set_prop ''rating'' (js_or (read_prop entry ''rating'') (JNum 0))
           (spread entry))))
       else
         Inr (JObj
           (set_prop ''domains''
              (JObj [(''.com'', js_or (read_prop entry ''domainStatus'') (JStr ''unknown''))])
           (set_prop ''ratingComment'' (js_or (read_prop entry ''ratingComment'') (JStr []))
           (set_prop ''rating'' (js_or (read_prop entry ''rating'') (JNum 0))
           (spread entry))))))"

text \<open>
  \<^verbatim>\<open>migrateOldData(names)\<close> calls \<^verbatim>\<open>names.map\<close>: only an array has that method,
  for any other value the call throws.
\<close>

definition migrateOldData :: "jsval \<Rightarrow> js_error + jsval" where
  "migrateOldData names =
     (case names of
        JArr xs \<Rightarrow> and_then (map_throwing migrate_entry xs) (\<lambda>ys. Inr (JArr ys))
      | _ \<Rightarrow> Inl TypeError)"

text \<open>
  The state as the loaders build it: each field holds whatever the stored text held
  there.
\<close>

record loaded_state =
  loaded_generatedNames :: jsval
  loaded_favorites :: jsval
  loaded_archivedNames :: jsval
  loaded_darkMode :: jsval

definition emptyLoaded :: loaded_state where
  "emptyLoaded = \<lparr>loaded_generatedNames = JArr [], loaded_favorites = JArr [],
                   loaded_archivedNames = JArr [], loaded_darkMode = JBool False\<rparr>"

text \<open>
  \<^verbatim>\<open>JSON.parse\<close> belongs to the platform; the loaders take it as the parameter
  \<open>parse\<close>, which returns the parsed value or throws a \<^verbatim>\<open>SyntaxError\<close>.
\<close>

type_synonym parser = "string \<Rightarrow> js_error + jsval"

text \<open>The callback of the initializer: \<^verbatim>\<open>{...name, timestamp: new Date(name.timestamp)}\<close>.\<close>

definition with_date :: "jsval \<Rightarrow> js_error + jsval" where
  "with_date entry =
     and_then (get_prop entry ''timestamp'') (\<lambda>t.
       Inr (JObj (set_prop ''timestamp'' (JDate t) (spread entry))))"

text \<open>
  The initializer of \<^verbatim>\<open>useState\<close>, given what \<^verbatim>\<open>localStorage.getItem\<close> returned
  (\<open>None\<close> for \<^verbatim>\<open>null\<close>). Nothing in it catches: what \<^verbatim>\<open>JSON.parse\<close> or a property
  read throws leaves the initializer, the \<open>Inl\<close> results below.
\<close>

definition useState_initializer :: "parser \<Rightarrow> string option \<Rightarrow> js_error + loaded_state" where
  "useState_initializer parse saved =
     (case saved of
        None \<Rightarrow> Inr emptyLoaded
      | Some text \<Rightarrow>
          if text = [] then Inr emptyLoaded
          else
            and_then (parse text) (\<lambda>parsed.
            and_then (get_prop parsed ''generatedNames'') (\<lambda>stored.
            and_then
              (if nullish stored then Inr JUndefined
               else (case stored of
                       JArr xs \<Rightarrow> and_then (map_throwing with_date xs) (\<lambda>ys. Inr (JArr ys))
                     | _ \<Rightarrow> Inl TypeError)) (\<lambda>mapped.
            Inr \<lparr>loaded_generatedNames = js_or mapped (JArr []),
                 loaded_favorites = js_or (read_prop parsed ''favorites'') (JArr []),
                 loaded_archivedNames = js_or (read_prop parsed ''archivedNames'') (JArr []),
                 loaded_darkMode = js_or (read_prop parsed ''darkMode'') (JBool False)\<rparr>))))"

text \<open>The body of the \<^verbatim>\<open>try\<close> block of the loading effect.\<close>

definition load_saved :: "parser \<Rightarrow> string \<Rightarrow> js_error + loaded_state" where
  "load_saved parse text =
     and_then (parse text) (\<lambda>parsed.
     and_then (get_prop parsed ''generatedNames'') (\<lambda>storedNames.
     and_then (migrateOldData (js_or storedNames (JArr []))) (\<lambda>names.
     and_then (migrateOldData (js_or (read_prop parsed ''archivedNames'') (JArr []))) (\<lambda>archived.
     Inr \<lparr>loaded_generatedNames = names,
          loaded_favorites = js_or (read_prop parsed ''favorites'') (JArr []),
          loaded_archivedNames = archived,
          loaded_darkMode = js_or (read_prop parsed ''darkMode'') (JBool False)\<rparr>))))"

text \<open>
  The loading effect, run on the current state: its \<^verbatim>\<open>catch\<close> block sets the empty
  state.
\<close>

definition load_effect :: "parser \<Rightarrow> string option \<Rightarrow> loaded_state \<Rightarrow> loaded_state" where
  "load_effect parse saved current =
     (case saved of
        None \<Rightarrow> current
      | Some text \<Rightarrow>
          if text = [] then current
          else (case load_saved parse text of Inl err \<Rightarrow> emptyLoaded | Inr loaded \<Rightarrow> loaded))"

text \<open>
  Loading the application state from the storage: the initializer reads the key
  \<^verbatim>\<open>saasNameGenState\<close>, then the effect reads the key \<^verbatim>\<open>saasNameGenerator\<close>.
\<close>

definition load_app_state :: "parser \<Rightarrow> (string \<Rightarrow> string option) \<Rightarrow> js_error + loaded_state" where
  "load_app_state parse storage =
     and_then (useState_initializer parse (storage ''saasNameGenState'')) (\<lambda>initial.
       Inr (load_effect parse (storage ''saasNameGenerator'') initial))"

text \<open>
  A stand-in for \<^verbatim>\<open>JSON.parse\<close> on the stored texts of the examples below: it agrees
  with \<^verbatim>\<open>JSON.parse\<close> on \<^verbatim>\<open>null\<close>, on \<^verbatim>\<open>{}\<close> and on the cut-off text \<^verbatim>\<open>{\<close>.
\<close>

definition sampleParse :: parser where
  "sampleParse text =
     (if text = ''null'' then Inr JNull
      else if text = ''{}'' then Inr (JObj [])
      else Inl SyntaxError)"

definition sampleStorage :: "string \<Rightarrow> string \<Rightarrow> string option" where
  "sampleStorage text key = (if key = ''saasNameGenState'' then Some text else None)"

section \<open>Generation service call\<close>

text \<open>
  \<^verbatim>\<open>generateNameWithCohere\<close>, the service that \<^verbatim>\<open>generateName\<close> calls. The HTTP
  exchange is outside the program: \<open>transport prompt\<close> is what \<^verbatim>\<open>fetch\<close> gives for
  the request that carries the prompt, a response with its status and body text, or a
  rejection (\<open>Inl\<close>) when the request fails on the network. \<^verbatim>\<open>response.json()\<close> is
  the parameter \<open>parse\<close> applied to the body. The source never reads the status.
\<close>

record http_response =
  status_code :: nat
  body_text :: string

type_synonym transport = "string \<Rightarrow> js_error + http_response"

text \<open>\<^verbatim>\<open>v[0]\<close> for a value that is neither \<^verbatim>\<open>null\<close> nor \<^verbatim>\<open>undefined\<close>.\<close>

definition first_element :: "jsval \<Rightarrow> jsval" where
  "first_element v =
     (case v of
        JArr vs \<Rightarrow> (case vs of [] \<Rightarrow> JUndefined | x # rest \<Rightarrow> x)
      | JObj kvs \<Rightarrow> (case map_of kvs ''0'' of None \<Rightarrow> JUndefined | Some x \<Rightarrow> x)
      | JStr s \<Rightarrow> (case s of [] \<Rightarrow> JUndefined | c # rest \<Rightarrow> JStr [c])
      | _ \<Rightarrow> JUndefined)"

text \<open>
  \<^verbatim>\<open>data.generations?.[0]?.text?.trim() || ''\<close>: reading \<^verbatim>\<open>generations\<close> of
  \<^verbatim>\<open>null\<close> throws; each \<^verbatim>\<open>?.\<close> ends the chain with \<^verbatim>\<open>undefined\<close> on a missing
  value; \<^verbatim>\<open>trim\<close> exists on strings only, so calling it on any other value throws;
  \<^verbatim>\<open>undefined\<close> and the empty string become the empty string.
\<close>

definition generation_text :: "jsval \<Rightarrow> js_error + string" where
  "generation_text data =
     and_then (get_prop data ''generations'') (\<lambda>generations.
       if nullish generations then Inr []
       else if nullish (first_element generations) then Inr []
       else
         (case read_prop (first_element generations) ''text'' of
            JUndefined \<Rightarrow> Inr []
          | JNull \<Rightarrow> Inr []
          | JStr s \<Rightarrow> Inr (trim s)
          | _ \<Rightarrow> Inl TypeError))"

definition generateNameWithCohere :: "parser \<Rightarrow> transport \<Rightarrow> service" where
  "generateNameWithCohere parse fetch prompt =
     and_then (fetch prompt) (\<lambda>response.
     and_then (parse (body_text response)) generation_text)"

text \<open>
  Stand-ins to evaluate the service call on: a parser that agrees with \<^verbatim>\<open>JSON.parse\<close>
  on the three bodies used below, and three exchanges that answer the primary prompt
  with one generated name and differ on the fallback prompt: a rejected request, a
  \<^verbatim>\<open>502\<close> answer whose body is not JSON, and a \<^verbatim>\<open>401\<close> answer with a JSON error body.
\<close>

definition okBody :: string where
  \<open>okBody = ''{"generations":[{"text":"CloudFlow"}]}''\<close>

definition errorBody :: string where
  \<open>errorBody = ''{"message":"invalid api token"}''\<close>

definition sampleBodyParse :: parser where
  "sampleBodyParse text =
     (if text = okBody
        then Inr (JObj [(''generations'', JArr [JObj [(''text'', JStr ''CloudFlow'')]])])
      else if text = errorBody
        then Inr (JObj [(''message'', JStr ''invalid api token'')])
      else Inl SyntaxError)"

definition rejectedFallback :: transport where
  "rejectedFallback prompt =
     (if prompt = primaryPrompt sampleParams
      then Inr \<lparr>status_code = 200, body_text = okBody\<rparr>
      else Inl ServiceError)"

definition badGatewayFallback :: transport where
  "badGatewayFallback prompt =
     (if prompt = primaryPrompt sampleParams
      then Inr \<lparr>status_code = 200, body_text = okBody\<rparr>
      else Inr \<lparr>status_code = 502, body_text = ''<html>Bad Gateway</html>''\<rparr>)"

definition unauthorizedFallback :: transport where
  "unauthorizedFallback prompt =
     (if prompt = primaryPrompt sampleParams
      then Inr \<lparr>status_code = 200, body_text = okBody\<rparr>
      else Inr \<lparr>status_code = 401, body_text = errorBody\<rparr>)"

section \<open>Properties\<close>

subsection \<open>Splitting\<close>

lemma split_on_nonempty: "split_on c s \<noteq> []"
  by (induction s) (auto split: list.splits)

lemma hd_split_on: "hd (split_on c s) = takeWhile (\<lambda>x. x \<noteq> c) s"
  by (induction s) (auto split: list.splits simp: split_on_nonempty)

lemma split_on_absent: "c \<notin> set s \<Longrightarrow> split_on c s = [s]"
  by (induction s) auto

lemma split_on_present: "c \<in> set s \<Longrightarrow> tl (split_on c s) \<noteq> []"
  by (induction s) (auto split: list.splits simp: split_on_nonempty)

lemma last_split_on_app: "c \<notin> set b \<Longrightarrow> last (split_on c (a @ c # b)) = b"
proof (induction a)
  case Nil
  then show ?case by (simp add: split_on_absent)
next
  case (Cons x a)
  have ne: "tl (split_on c (a @ c # b)) \<noteq> []"
    by (rule split_on_present) simp
  show ?case
  proof (cases "x = c")
    case True
    with Cons show ?thesis by (simp add: split_on_nonempty)
  next
    case False
    obtain p ps where sp: "split_on c (a @ c # b) = p # ps"
      by (cases "split_on c (a @ c # b)") (auto simp: split_on_nonempty)
    with ne have "ps \<noteq> []" by simp
    with Cons sp False show ?thesis by simp
  qed
qed

lemma last_split_on: "last (split_on c s) = rev (takeWhile (\<lambda>x. x \<noteq> c) (rev s))"
proof (cases "c \<in> set s")
  case True
  then obtain a b where s: "s = a @ c # b" and nb: "c \<notin> set b"
    by (meson split_list_last)
  from nb have "takeWhile (\<lambda>x. x \<noteq> c) (rev b @ c # rev a) = rev b"
    by (subst takeWhile_append2) auto
  with s nb show ?thesis by (simp add: last_split_on_app)
next
  case False
  then have "takeWhile (\<lambda>x. x \<noteq> c) (rev s) = rev s"
    by (auto simp: takeWhile_eq_all_conv)
  then have r: "rev (takeWhile (\<lambda>x. x \<noteq> c) (rev s)) = s"
    by (simp only: rev_rev_ident)
  show ?thesis unfolding split_on_absent [OF False] r by simp
qed

subsection \<open>Estimator\<close>

text \<open>
  C6. For every input domain string the estimator returns what the ordered rule list of
  the specification returns when its rules are tried from the top and the first match
  wins: blocklist, short name, stop word, the \<^verbatim>\<open>.com\<close> rule, the newer extensions,
  \<^verbatim>\<open>.net\<close>/\<^verbatim>\<open>.org\<close>, and \<open>Available\<close> for everything else.
\<close>

theorem estimator_follows_cascade:
  "checkDomainAvailability domain = estimator_cascade domain"
  by (simp add: checkDomainAvailability_def estimator_cascade_def cascade_def
      rule_blocklist_def rule_short_name_def rule_stop_word_def rule_com_def
      rule_new_extension_def rule_net_org_def rule_other_def
      name_portion_def extension_of_def hd_split_on last_split_on Let_def)

subsection \<open>History merger\<close>

text \<open>
  C8. The merge puts the new batch in front of the existing history and keeps the first
  20 entries, leaving the rest of the state alone. Merging 5 new candidates into a
  history of 18 gives 20 entries: the batch first, then the 15 newest of the old
  history, its 3 oldest entries dropped.
\<close>

theorem history_merge:
  "generatedNames (mergeHistory batch prev) = take 20 (batch @ generatedNames prev) \<and>
   favorites (mergeHistory batch prev) = favorites prev \<and>
   archivedNames (mergeHistory batch prev) = archivedNames prev \<and>
   length (generatedNames (mergeHistory batch prev)) \<le> 20 \<and>
   (length batch = 5 \<and> length (generatedNames prev) = 18 \<longrightarrow>
      length (generatedNames (mergeHistory batch prev)) = 20 \<and>
      take 5 (generatedNames (mergeHistory batch prev)) = batch \<and>
      drop 5 (generatedNames (mergeHistory batch prev)) = take 15 (generatedNames prev))"
  by (simp add: mergeHistory_def)

theorem history_merge_witness:
  "length (map (\<lambda>i. sample i False) [''n1'', ''n2'', ''n3'', ''n4'', ''n5'']) = 5 \<and>
   length (generatedNames (sampleState (map (\<lambda>i. sample i False)
     [''h01'', ''h02'', ''h03'', ''h04'', ''h05'', ''h06'', ''h07'', ''h08'', ''h09'',
      ''h10'', ''h11'', ''h12'', ''h13'', ''h14'', ''h15'', ''h16'', ''h17'', ''h18'']))) = 18 \<and>
   map id' (generatedNames (mergeHistory (map (\<lambda>i. sample i False) [''n1'', ''n2'', ''n3'', ''n4'', ''n5''])
     (sampleState (map (\<lambda>i. sample i False)
       [''h01'', ''h02'', ''h03'', ''h04'', ''h05'', ''h06'', ''h07'', ''h08'', ''h09'',
        ''h10'', ''h11'', ''h12'', ''h13'', ''h14'', ''h15'', ''h16'', ''h17'', ''h18''])))) =
     [''n1'', ''n2'', ''n3'', ''n4'', ''n5'',
      ''h01'', ''h02'', ''h03'', ''h04'', ''h05'', ''h06'', ''h07'', ''h08'', ''h09'',
      ''h10'', ''h11'', ''h12'', ''h13'', ''h14'', ''h15'']"
  using history_merge [of "map (\<lambda>i. sample i False) [''n1'', ''n2'', ''n3'', ''n4'', ''n5'']"
      "sampleState (map (\<lambda>i. sample i False)
       [''h01'', ''h02'', ''h03'', ''h04'', ''h05'', ''h06'', ''h07'', ''h08'', ''h09'',
        ''h10'', ''h11'', ''h12'', ''h13'', ''h14'', ''h15'', ''h16'', ''h17'', ''h18''])"]
  by (simp add: sampleState_def sample_def)

subsection \<open>Archiving\<close>

lemma find_SomeD: "find P xs = Some x \<Longrightarrow> x \<in> set xs \<and> P x"
  by (induction xs) (auto split: if_splits)

lemma find_absent: "nameId \<notin> id' ` set xs \<Longrightarrow> find (\<lambda>n. id' n = nameId) xs = None"
  by (induction xs) auto

lemma filter_absent: "nameId \<notin> id' ` set xs \<Longrightarrow> filter (\<lambda>n. id' n \<noteq> nameId) xs = xs"
  by (induction xs) auto

lemma find_present:
  "nameId \<in> id' ` set xs \<Longrightarrow> \<exists>n. find (\<lambda>n. id' n = nameId) xs = Some n"
  by (induction xs) auto

text \<open>
  C10. Archiving an id that no active candidate has leaves the active collection as it
  was and appends \<^verbatim>\<open>undefined\<close> (\<open>None\<close>) to the archived collection. Archiving
  an id that an active candidate has appends that candidate: the appended entry is a
  candidate exactly when the id is present.
\<close>

theorem archive_missing_id:
  "(nameId \<notin> id' ` set (generatedNames prev) \<longrightarrow>
      generatedNames (archiveName nameId prev) = generatedNames prev \<and>
      archivedNames (archiveName nameId prev) = archivedNames prev @ [None]) \<and>
   (nameId \<in> id' ` set (generatedNames prev) \<longrightarrow>
      (\<exists>n. n \<in> set (generatedNames prev) \<and> id' n = nameId \<and>
        archivedNames (archiveName nameId prev) = archivedNames prev @ [Some n]))"
proof (intro conjI impI)
  assume a: "nameId \<notin> id' ` set (generatedNames prev)"
  show "generatedNames (archiveName nameId prev) = generatedNames prev"
    using filter_absent [OF a] by (simp add: archiveName_def)
  show "archivedNames (archiveName nameId prev) = archivedNames prev @ [None]"
    using find_absent [OF a] by (simp add: archiveName_def)
next
  assume "nameId \<in> id' ` set (generatedNames prev)"
  then obtain n where f: "find (\<lambda>n. id' n = nameId) (generatedNames prev) = Some n"
    using find_present by blast
  from find_SomeD [OF f] have "n \<in> set (generatedNames prev)" "id' n = nameId" by auto
  moreover from f have "archivedNames (archiveName nameId prev) = archivedNames prev @ [Some n]"
    by (simp add: archiveName_def)
  ultimately show "\<exists>n. n \<in> set (generatedNames prev) \<and> id' n = nameId \<and>
        archivedNames (archiveName nameId prev) = archivedNames prev @ [Some n]"
    by blast
qed

theorem archive_missing_id_witness:
  "''zz'' \<notin> id' ` set (generatedNames (sampleState [sample ''a'' False])) \<and>
   generatedNames (archiveName ''zz'' (sampleState [sample ''a'' False])) = [sample ''a'' False] \<and>
   archivedNames (archiveName ''zz'' (sampleState [sample ''a'' False])) = [None] \<and>
   ''a'' \<in> id' ` set (generatedNames (sampleState [sample ''a'' False])) \<and>
   archivedNames (archiveName ''a'' (sampleState [sample ''a'' False])) = [Some (sample ''a'' False)]"
  using archive_missing_id [of "''zz''" "sampleState [sample ''a'' False]"]
    archive_missing_id [of "''a''" "sampleState [sample ''a'' False]"]
  by (auto simp: sampleState_def sample_def)

text \<open>
  Once an \<^verbatim>\<open>undefined\<close> entry is in the archived collection, every
  \<^verbatim>\<open>restoreName\<close> throws.
\<close>

lemma remove_archived_undefined:
  "None \<in> set entries \<Longrightarrow> remove_archived nameId entries = Inl TypeError"
  by (induction entries) (auto split: option.splits sum.splits)

lemma find_archived_undefined:
  "None \<in> set entries \<Longrightarrow>
   find_archived nameId entries = Inl TypeError \<or> (\<exists>n. find_archived nameId entries = Inr (Some n))"
  by (induction entries) (auto split: option.splits)

lemma restore_after_undefined:
  assumes "None \<in> set (archivedNames prev)"
  shows "restoreName nameId prev = Inl TypeError"
  using find_archived_undefined [OF assms, of nameId] remove_archived_undefined [OF assms, of nameId]
  by (auto simp: restoreName_def)

subsection \<open>Sanitizer\<close>

lemma letter_not_space: "is_letter c \<Longrightarrow> \<not> is_space c"
  by (auto simp: is_letter_def is_lower_def is_upper_def is_space_def)

lemma letter_not_sep: "is_letter c \<Longrightarrow> c \<noteq> CHR ''.'' \<and> c \<noteq> CHR 0x0A"
  by (auto simp: is_letter_def is_lower_def is_upper_def)

lemma letter_not_junk: "is_letter c \<Longrightarrow> \<not> is_trailing_junk c"
  by (simp add: is_trailing_junk_def)

lemma strip_leading_letters: "list_all is_letter s \<Longrightarrow> strip_leading s = s"
  by (cases s) (auto simp: strip_leading_def)

lemma strip_trailing_letters: "list_all is_letter s \<Longrightarrow> strip_trailing s = s"
  by (induction s) (auto simp: letter_not_junk)

lemma dropWhile_none: "list_all (\<lambda>c. \<not> P c) s \<Longrightarrow> dropWhile P s = s"
  by (cases s) auto

lemma trim_letters:
  assumes "list_all is_letter s"
  shows "trim s = s"
proof -
  from assms have n: "list_all (\<lambda>c. \<not> is_space c) s"
    by (auto simp: list_all_iff letter_not_space)
  then have "list_all (\<lambda>c. \<not> is_space c) (rev s)"
    by (simp add: list_all_iff)
  then show ?thesis
    by (simp add: trim_def dropWhile_none n)
qed

lemma first_piece_letters:
  assumes "list_all is_letter s"
  shows "hd (split_on CHR ''.'' s) = s \<and> hd (split_on CHR 0x0A s) = s"
proof -
  from assms have "CHR ''.'' \<notin> set s" "CHR 0x0A \<notin> set s"
    using letter_not_sep by (auto simp: list_all_iff)
  then show ?thesis by (simp add: split_on_absent)
qed

lemma cleanName_letters: "list_all is_letter s \<Longrightarrow> cleanName_of s = s"
  by (simp add: cleanName_of_def strip_leading_letters strip_trailing_letters trim_letters
      first_piece_letters)

lemma unwanted_length:
  assumes "list_ex (\<lambda>word. toLowerCase c = word) unwantedWords"
  shows "4 \<le> length c \<and> length c \<le> 8"
proof -
  from assms have "length (toLowerCase c) \<in> length ` set unwantedWords"
    by (auto simp: list_ex_iff)
  then show ?thesis by (auto simp: unwantedWords_def toLowerCase_def)
qed

text \<open>
  C7. The acceptance boundary of the primary round's sanitizer, on the cleaned line: a
  cleaned line of 30 characters is accepted as the candidate name, one of 31 characters
  is rejected, one of a single character is rejected, one of two characters is accepted
  (no denylist word is that short). A raw line made of letters only is its own cleaned
  line, so the same holds for raw lines of 30, 31, 1 and 2 letters.
\<close>

theorem sanitizer_boundary:
  "(length (cleanName_of line) = 30 \<longrightarrow> sanitize_primary line = Some (cleanName_of line)) \<and>
   (length (cleanName_of line) = 31 \<longrightarrow> sanitize_primary line = None) \<and>
   (length (cleanName_of line) = 1 \<longrightarrow> sanitize_primary line = None) \<and>
   (length (cleanName_of line) = 2 \<longrightarrow> sanitize_primary line = Some (cleanName_of line)) \<and>
   (list_all is_letter line \<longrightarrow> cleanName_of line = line)"
  using unwanted_length [of "cleanName_of line"] cleanName_letters [of line]
  by (auto simp: sanitize_primary_def Let_def)

theorem sanitizer_boundary_witness:
  "list_all is_letter ''abcdefghijklmnopqrstuvwxyzabcd'' \<and>
   length (cleanName_of ''abcdefghijklmnopqrstuvwxyzabcd'') = 30 \<and>
   sanitize_primary ''abcdefghijklmnopqrstuvwxyzabcd'' = Some ''abcdefghijklmnopqrstuvwxyzabcd'' \<and>
   length (cleanName_of ''abcdefghijklmnopqrstuvwxyzabcde'') = 31 \<and>
   sanitize_primary ''abcdefghijklmnopqrstuvwxyzabcde'' = None \<and>
   length (cleanName_of ''x'') = 1 \<and>
   sanitize_primary ''x'' = None \<and>
   length (cleanName_of ''Go'') = 2 \<and>
   sanitize_primary ''Go'' = Some ''Go''"
proof -
  have a: "list_all is_letter ''abcdefghijklmnopqrstuvwxyzabcd''"
    "list_all is_letter ''abcdefghijklmnopqrstuvwxyzabcde''"
    "list_all is_letter ''x''" "list_all is_letter ''Go''"
    by code_simp+
  from a sanitizer_boundary [of "''abcdefghijklmnopqrstuvwxyzabcd''"]
  have b: "length (cleanName_of ''abcdefghijklmnopqrstuvwxyzabcd'') = 30"
    "sanitize_primary ''abcdefghijklmnopqrstuvwxyzabcd'' = Some ''abcdefghijklmnopqrstuvwxyzabcd''"
    by simp_all
  from a sanitizer_boundary [of "''abcdefghijklmnopqrstuvwxyzabcde''"]
  have c: "length (cleanName_of ''abcdefghijklmnopqrstuvwxyzabcde'') = 31"
    "sanitize_primary ''abcdefghijklmnopqrstuvwxyzabcde'' = None"
    by simp_all
  from a sanitizer_boundary [of "''x''"]
  have d: "length (cleanName_of ''x'') = 1" "sanitize_primary ''x'' = None"
    by simp_all
  from a sanitizer_boundary [of "''Go''"]
  have e: "length (cleanName_of ''Go'') = 2" "sanitize_primary ''Go'' = Some ''Go''"
    by simp_all
  from a b c d e show ?thesis by simp
qed

subsection \<open>Generation pipeline\<close>

lemma prompts_differ: "primaryPrompt p \<noteq> fallbackPrompt p"
  by (simp add: primaryPrompt_def fallbackPrompt_def)

text \<open>
  C5. When the primary service call has returned a response: if fewer than 3 candidates
  survive the primary round, the run makes exactly one fallback call after the primary
  one and no call beyond it; if 3 or more survive, it makes the primary call only.
\<close>

theorem fallback_trigger:
  "svc (primaryPrompt p) = Inr response \<Longrightarrow>
   (length (primary_candidates e p response) < 3 \<longrightarrow>
      service_calls (generateName e svc p prev) = [primaryPrompt p, fallbackPrompt p] \<and>
      count_list (service_calls (generateName e svc p prev)) (fallbackPrompt p) = 1) \<and>
   (3 \<le> length (primary_candidates e p response) \<longrightarrow>
      service_calls (generateName e svc p prev) = [primaryPrompt p] \<and>
      count_list (service_calls (generateName e svc p prev)) (fallbackPrompt p) = 0)"
  using prompts_differ [of p]
  by (auto simp: generateName_def call_service_def primary_candidates_def Let_def
      split: sum.splits)

theorem fallback_trigger_witness:
  "failingFallback (primaryPrompt sampleParams) = Inr ''CloudFlow'' \<and>
   length (primary_candidates sampleEnv sampleParams ''CloudFlow'') = 1 \<and>
   service_calls (generateName sampleEnv failingFallback sampleParams emptyState) =
     [primaryPrompt sampleParams, fallbackPrompt sampleParams] \<and>
   scenarioService (primaryPrompt sampleParams) = Inr scenarioResponse \<and>
   length (primary_candidates sampleEnv sampleParams scenarioResponse) = 3 \<and>
   service_calls (generateName sampleEnv scenarioService sampleParams emptyState) =
     [primaryPrompt sampleParams]"
proof -
  have p1: "failingFallback (primaryPrompt sampleParams) = Inr ''CloudFlow''"
    by (simp add: failingFallback_def)
  have l1: "length (primary_candidates sampleEnv sampleParams ''CloudFlow'') = 1"
    by code_simp
  have p2: "scenarioService (primaryPrompt sampleParams) = Inr scenarioResponse"
    by (simp add: scenarioService_def)
  have l2: "length (primary_candidates sampleEnv sampleParams scenarioResponse) = 3"
    by code_simp
  from fallback_trigger [where svc = failingFallback and p = sampleParams and e = sampleEnv
      and prev = emptyState, OF p1] l1
  have c1: "service_calls (generateName sampleEnv failingFallback sampleParams emptyState) =
     [primaryPrompt sampleParams, fallbackPrompt sampleParams]" by simp
  from fallback_trigger [where svc = scenarioService and p = sampleParams and e = sampleEnv
      and prev = emptyState, OF p2] l2
  have c2: "service_calls (generateName sampleEnv scenarioService sampleParams emptyState) =
     [primaryPrompt sampleParams]" by simp
  from p1 l1 c1 p2 l2 c2 show ?thesis by simp
qed

lemma calls_bounded:
  "length (service_calls (generateName e svc p prev)) \<le> 2 \<and>
   count_list (service_calls (generateName e svc p prev)) (fallbackPrompt p) \<le> 1"
  using prompts_differ [of p]
  by (auto simp: generateName_def call_service_def Let_def split: sum.splits)

text \<open>
  C2, as stated, fails: with a primary response that gives the single candidate
  \<^verbatim>\<open>CloudFlow\<close> and a fallback call that throws, the run shows the error toast and
  the state is not the one with the primary candidate merged in: nothing is committed.
\<close>

theorem fallback_failure_not_swallowed:
  "length (primary_candidates sampleEnv sampleParams ''CloudFlow'') < 3 \<and>
   map name (primary_candidates sampleEnv sampleParams ''CloudFlow'') = [''CloudFlow''] \<and>
   failingFallback (primaryPrompt sampleParams) = Inr ''CloudFlow'' \<and>
   failingFallback (fallbackPrompt sampleParams) = Inl ServiceError \<and>
   toast (generateName sampleEnv failingFallback sampleParams emptyState) = FailedToGenerate \<and>
   generatedNames (new_state (generateName sampleEnv failingFallback sampleParams emptyState)) = [] \<and>
   new_state (generateName sampleEnv failingFallback sampleParams emptyState) \<noteq>
     mergeHistory (primary_candidates sampleEnv sampleParams ''CloudFlow'') emptyState"
  by code_simp

text \<open>
  How a failing fallback call ends, for any service: a call that throws ends the run in
  the \<^verbatim>\<open>catch\<close> block, a call that returns the empty text adds no candidate and the
  primary candidates are committed. \<^verbatim>\<open>generateNameWithCohere\<close> throws when the
  request is rejected or the body does not parse, and returns the empty text when the
  parsed body has no \<^verbatim>\<open>generations\<close>, whatever the status of the answer.
\<close>

lemma empty_response_lines: "response_lines [] = []"
  by (simp add: response_lines_def trim_def)

lemma fallback_empty_commits_primary:
  "svc (primaryPrompt p) = Inr response \<Longrightarrow>
   length (primary_candidates e p response) < 3 \<Longrightarrow>
   svc (fallbackPrompt p) = Inr [] \<Longrightarrow>
   new_state (generateName e svc p prev) = mergeHistory (primary_candidates e p response) prev \<and>
   toast (generateName e svc p prev) = Generated (length (primary_candidates e p response)) \<and>
   service_calls (generateName e svc p prev) = [primaryPrompt p, fallbackPrompt p]"
  by (simp add: generateName_def call_service_def primary_candidates_def Let_def
      empty_response_lines)

lemma rejected_request_throws:
  "fetch prompt = Inl err \<Longrightarrow> generateNameWithCohere parse fetch prompt = Inl err"
  by (simp add: generateNameWithCohere_def and_then_def)

lemma unparsable_body_throws:
  "fetch prompt = Inr response \<Longrightarrow> parse (body_text response) = Inl err \<Longrightarrow>
   generateNameWithCohere parse fetch prompt = Inl err"
  by (simp add: generateNameWithCohere_def and_then_def)

lemma no_generations_is_empty_text:
  "fetch prompt = Inr response \<Longrightarrow> parse (body_text response) = Inr (JObj kvs) \<Longrightarrow>
   map_of kvs ''generations'' = None \<Longrightarrow>
   generateNameWithCohere parse fetch prompt = Inr []"
  by (simp add: generateNameWithCohere_def and_then_def generation_text_def get_prop_def
      nullish_def read_prop_def)

lemma fallback_failure_discards:
  "svc (primaryPrompt p) = Inr response \<Longrightarrow>
   length (primary_candidates e p response) < 3 \<Longrightarrow>
   svc (fallbackPrompt p) = Inl err \<Longrightarrow>
   new_state (generateName e svc p prev) = prev \<and>
   toast (generateName e svc p prev) = FailedToGenerate \<and>
   service_calls (generateName e svc p prev) = [primaryPrompt p, fallbackPrompt p]"
  by (simp add: generateName_def call_service_def primary_candidates_def Let_def)

text \<open>
  The service of the example above is \<^verbatim>\<open>generateNameWithCohere\<close> on an exchange whose
  fallback request is rejected.
\<close>

lemma failingFallback_is_rejected_request:
  "generateNameWithCohere sampleBodyParse rejectedFallback (primaryPrompt sampleParams) =
     failingFallback (primaryPrompt sampleParams) \<and>
   generateNameWithCohere sampleBodyParse rejectedFallback (fallbackPrompt sampleParams) =
     failingFallback (fallbackPrompt sampleParams)"
  by code_simp

text \<open>
  C2, amended. If the primary round produced fewer than 3 candidates and the fallback
  service call fails, the failure is swallowed only when the call still returns. A
  failure that makes \<^verbatim>\<open>generateNameWithCohere\<close> throw (a rejected request, a body that
  does not parse, or any other throw of the call) is reported: the run ends with the
  error toast, the primary candidates are discarded and the state is left as it was. A
  failure answered with a body that parses to an object without \<^verbatim>\<open>generations\<close>
  (whatever its status), or any call that returns the empty text, is swallowed: the
  primary candidates are committed with the success toast and the fallback adds no
  candidate.
\<close>

theorem fallback_failure_outcomes:
  assumes primary: "generateNameWithCohere parse fetch (primaryPrompt p) = Inr response"
    and few: "length (primary_candidates e p response) < 3"
  shows
   "((\<exists>err. fetch (fallbackPrompt p) = Inl err) \<or>
     (\<exists>answer err. fetch (fallbackPrompt p) = Inr answer \<and> parse (body_text answer) = Inl err) \<or>
     (\<exists>err. generateNameWithCohere parse fetch (fallbackPrompt p) = Inl err) \<longrightarrow>
       new_state (generateName e (generateNameWithCohere parse fetch) p prev) = prev \<and>
       toast (generateName e (generateNameWithCohere parse fetch) p prev) = FailedToGenerate \<and>
       service_calls (generateName e (generateNameWithCohere parse fetch) p prev) =
         [primaryPrompt p, fallbackPrompt p]) \<and>
    ((\<exists>answer kvs. fetch (fallbackPrompt p) = Inr answer \<and>
         parse (body_text answer) = Inr (JObj kvs) \<and> map_of kvs ''generations'' = None) \<or>
     generateNameWithCohere parse fetch (fallbackPrompt p) = Inr [] \<longrightarrow>
       new_state (generateName e (generateNameWithCohere parse fetch) p prev) =
         mergeHistory (primary_candidates e p response) prev \<and>
       toast (generateName e (generateNameWithCohere parse fetch) p prev) =
         Generated (length (primary_candidates e p response)) \<and>
       service_calls (generateName e (generateNameWithCohere parse fetch) p prev) =
         [primaryPrompt p, fallbackPrompt p])"
proof (intro conjI impI)
  assume "(\<exists>err. fetch (fallbackPrompt p) = Inl err) \<or>
     (\<exists>answer err. fetch (fallbackPrompt p) = Inr answer \<and> parse (body_text answer) = Inl err) \<or>
     (\<exists>err. generateNameWithCohere parse fetch (fallbackPrompt p) = Inl err)"
  then obtain err where "generateNameWithCohere parse fetch (fallbackPrompt p) = Inl err"
    using rejected_request_throws unparsable_body_throws by blast
  from fallback_failure_discards [OF primary few this]
  show "new_state (generateName e (generateNameWithCohere parse fetch) p prev) = prev"
    "toast (generateName e (generateNameWithCohere parse fetch) p prev) = FailedToGenerate"
    "service_calls (generateName e (generateNameWithCohere parse fetch) p prev) =
         [primaryPrompt p, fallbackPrompt p]"
    by simp_all
next
  assume "(\<exists>answer kvs. fetch (fallbackPrompt p) = Inr answer \<and>
         parse (body_text answer) = Inr (JObj kvs) \<and> map_of kvs ''generations'' = None) \<or>
     generateNameWithCohere parse fetch (fallbackPrompt p) = Inr []"
  then have "generateNameWithCohere parse fetch (fallbackPrompt p) = Inr []"
    using no_generations_is_empty_text by blast
  from fallback_empty_commits_primary [OF primary few this]
  show "new_state (generateName e (generateNameWithCohere parse fetch) p prev) =
         mergeHistory (primary_candidates e p response) prev"
    "toast (generateName e (generateNameWithCohere parse fetch) p prev) =
         Generated (length (primary_candidates e p response))"
    "service_calls (generateName e (generateNameWithCohere parse fetch) p prev) =
         [primaryPrompt p, fallbackPrompt p]"
    by simp_all
qed

theorem fallback_failure_outcomes_witness:
  "generateNameWithCohere sampleBodyParse rejectedFallback (primaryPrompt sampleParams) = Inr ''CloudFlow'' \<and>
   generateNameWithCohere sampleBodyParse badGatewayFallback (primaryPrompt sampleParams) = Inr ''CloudFlow'' \<and>
   generateNameWithCohere sampleBodyParse unauthorizedFallback (primaryPrompt sampleParams) = Inr ''CloudFlow'' \<and>
   length (primary_candidates sampleEnv sampleParams ''CloudFlow'') < 3 \<and>
   rejectedFallback (fallbackPrompt sampleParams) = Inl ServiceError \<and>
   new_state (generateName sampleEnv (generateNameWithCohere sampleBodyParse rejectedFallback)
     sampleParams (sampleState [sample ''a'' False])) = sampleState [sample ''a'' False] \<and>
   toast (generateName sampleEnv (generateNameWithCohere sampleBodyParse rejectedFallback)
     sampleParams (sampleState [sample ''a'' False])) = FailedToGenerate \<and>
   badGatewayFallback (fallbackPrompt sampleParams) =
     Inr \<lparr>status_code = 502, body_text = ''<html>Bad Gateway</html>''\<rparr> \<and>
   sampleBodyParse ''<html>Bad Gateway</html>'' = Inl SyntaxError \<and>
   new_state (generateName sampleEnv (generateNameWithCohere sampleBodyParse badGatewayFallback)
     sampleParams (sampleState [sample ''a'' False])) = sampleState [sample ''a'' False] \<and>
   toast (generateName sampleEnv (generateNameWithCohere sampleBodyParse badGatewayFallback)
     sampleParams (sampleState [sample ''a'' False])) = FailedToGenerate \<and>
   unauthorizedFallback (fallbackPrompt sampleParams) =
     Inr \<lparr>status_code = 401, body_text = errorBody\<rparr> \<and>
   sampleBodyParse errorBody = Inr (JObj [(''message'', JStr ''invalid api token'')]) \<and>
   new_state (generateName sampleEnv (generateNameWithCohere sampleBodyParse unauthorizedFallback)
     sampleParams (sampleState [sample ''a'' False])) =
     mergeHistory (primary_candidates sampleEnv sampleParams ''CloudFlow'')
       (sampleState [sample ''a'' False]) \<and>
   toast (generateName sampleEnv (generateNameWithCohere sampleBodyParse unauthorizedFallback)
     sampleParams (sampleState [sample ''a'' False])) = Generated 1"
proof -
  have pd: "fallbackPrompt sampleParams \<noteq> primaryPrompt sampleParams"
    using prompts_differ [of sampleParams] by simp
  have p1: "generateNameWithCohere sampleBodyParse rejectedFallback (primaryPrompt sampleParams) = Inr ''CloudFlow''"
    and p2: "generateNameWithCohere sampleBodyParse badGatewayFallback (primaryPrompt sampleParams) = Inr ''CloudFlow''"
    and p3: "generateNameWithCohere sampleBodyParse unauthorizedFallback (primaryPrompt sampleParams) = Inr ''CloudFlow''"
    by code_simp+
  have few: "length (primary_candidates sampleEnv sampleParams ''CloudFlow'') < 3"
    and one: "length (primary_candidates sampleEnv sampleParams ''CloudFlow'') = 1"
    by code_simp+
  have r: "rejectedFallback (fallbackPrompt sampleParams) = Inl ServiceError"
    using pd by (simp add: rejectedFallback_def)
  have b: "badGatewayFallback (fallbackPrompt sampleParams) =
      Inr \<lparr>status_code = 502, body_text = ''<html>Bad Gateway</html>''\<rparr>"
    using pd by (simp add: badGatewayFallback_def)
  have bp: "sampleBodyParse ''<html>Bad Gateway</html>'' = Inl SyntaxError"
    by code_simp
  have u: "unauthorizedFallback (fallbackPrompt sampleParams) =
      Inr \<lparr>status_code = 401, body_text = errorBody\<rparr>"
    using pd by (simp add: unauthorizedFallback_def)
  have up: "sampleBodyParse errorBody = Inr (JObj [(''message'', JStr ''invalid api token'')])"
    by code_simp
  have c1: "new_state (generateName sampleEnv (generateNameWithCohere sampleBodyParse rejectedFallback)
      sampleParams (sampleState [sample ''a'' False])) = sampleState [sample ''a'' False] \<and>
    toast (generateName sampleEnv (generateNameWithCohere sampleBodyParse rejectedFallback)
      sampleParams (sampleState [sample ''a'' False])) = FailedToGenerate"
    using fallback_failure_outcomes [where parse = sampleBodyParse and fetch = rejectedFallback
        and p = sampleParams and e = sampleEnv and prev = "sampleState [sample ''a'' False]",
        OF p1 few] r
    by blast
  have c2: "new_state (generateName sampleEnv (generateNameWithCohere sampleBodyParse badGatewayFallback)
      sampleParams (sampleState [sample ''a'' False])) = sampleState [sample ''a'' False] \<and>
    toast (generateName sampleEnv (generateNameWithCohere sampleBodyParse badGatewayFallback)
      sampleParams (sampleState [sample ''a'' False])) = FailedToGenerate"
    using fallback_failure_outcomes [where parse = sampleBodyParse and fetch = badGatewayFallback
        and p = sampleParams and e = sampleEnv and prev = "sampleState [sample ''a'' False]",
        OF p2 few] b bp
    by (metis http_response.select_convs(2))
  have c3: "new_state (generateName sampleEnv (generateNameWithCohere sampleBodyParse unauthorizedFallback)
      sampleParams (sampleState [sample ''a'' False])) =
      mergeHistory (primary_candidates sampleEnv sampleParams ''CloudFlow'')
        (sampleState [sample ''a'' False]) \<and>
    toast (generateName sampleEnv (generateNameWithCohere sampleBodyParse unauthorizedFallback)
      sampleParams (sampleState [sample ''a'' False])) = Generated 1"
  proof -
    have "\<exists>answer kvs. unauthorizedFallback (fallbackPrompt sampleParams) = Inr answer \<and>
         sampleBodyParse (body_text answer) = Inr (JObj kvs) \<and> map_of kvs ''generations'' = None"
      using u up by (intro exI [of _ "\<lparr>status_code = 401, body_text = errorBody\<rparr>"]
          exI [of _ "[(''message'', JStr ''invalid api token'')]"]) simp
    with fallback_failure_outcomes [where parse = sampleBodyParse and fetch = unauthorizedFallback
        and p = sampleParams and e = sampleEnv and prev = "sampleState [sample ''a'' False]",
        OF p3 few] one
    show ?thesis by simp
  qed
  from p1 p2 p3 few r b bp u up c1 c2 c3 show ?thesis by blast
qed

text \<open>
  C3: the code at the failing input. The primary round rejects the denylist words
  \<^verbatim>\<open>name\<close> and \<^verbatim>\<open>here\<close>; the fallback round accepts both. With an empty primary
  response and the fallback response \<^verbatim>\<open>name\<close>, the run commits a candidate named
  \<^verbatim>\<open>name\<close>.
\<close>

theorem fallback_accepts_denylisted:
  "sanitize_primary ''name'' = None \<and>
   sanitize_fallback ''name'' = Some ''name'' \<and>
   sanitize_primary ''here'' = None \<and>
   sanitize_fallback ''here'' = Some ''here'' \<and>
   map name (generatedNames (new_state
     (generateName sampleEnv denylistedFallback sampleParams emptyState))) = [''name''] \<and>
   toast (generateName sampleEnv denylistedFallback sampleParams emptyState) = Generated 1"
  by code_simp

subsection \<open>Favorites\<close>

lemma toggle_recomputes_favorites:
  "favorites (toggleFavorite nameId prev) = derivedFavorites (toggleFavorite nameId prev)"
  by (simp add: toggleFavorite_def derivedFavorites_def Let_def)

text \<open>
  C4: the code at the failing input. In a state whose \<^verbatim>\<open>favorites\<close> list is the
  derived index, archiving the favorite \<^verbatim>\<open>a\<close> leaves its id in \<^verbatim>\<open>favorites\<close> while
  no active candidate is a favorite; restoring an archived candidate whose flag is set
  makes it an active favorite while \<^verbatim>\<open>favorites\<close> stays empty.
\<close>

theorem archive_leaves_favorites_stale:
  "favorites (sampleState [sample ''a'' True]) = derivedFavorites (sampleState [sample ''a'' True]) \<and>
   favorites (archiveName ''a'' (sampleState [sample ''a'' True])) = [''a''] \<and>
   derivedFavorites (archiveName ''a'' (sampleState [sample ''a'' True])) = [] \<and>
   favorites \<lparr>generatedNames = [], favorites = [], archivedNames = [Some (sample ''a'' True)],
              darkMode = False\<rparr> =
     derivedFavorites \<lparr>generatedNames = [], favorites = [],
                       archivedNames = [Some (sample ''a'' True)], darkMode = False\<rparr> \<and>
   map_sum (\<lambda>e. e) favorites
     (restoreName ''a'' \<lparr>generatedNames = [], favorites = [],
                          archivedNames = [Some (sample ''a'' True)], darkMode = False\<rparr>) = Inr [] \<and>
   map_sum (\<lambda>e. e) derivedFavorites
     (restoreName ''a'' \<lparr>generatedNames = [], favorites = [],
                          archivedNames = [Some (sample ''a'' True)], darkMode = False\<rparr>) = Inr [''a'']"
  by (simp add: sampleState_def sample_def archiveName_def derivedFavorites_def restoreName_def)

subsection \<open>Loading the stored state\<close>

text \<open>
  C1: the code at the failing input. When \<^verbatim>\<open>JSON.parse\<close> rejects the text stored
  under \<^verbatim>\<open>saasNameGenState\<close>, the initializer throws the \<^verbatim>\<open>SyntaxError\<close> and so
  does the load as a whole; the loading effect, given the same text, sets the empty
  state.
\<close>

theorem initializer_throws_on_malformed:
  "parse text = Inl SyntaxError \<Longrightarrow> text \<noteq> [] \<Longrightarrow> storage ''saasNameGenState'' = Some text \<Longrightarrow>
   useState_initializer parse (Some text) = Inl SyntaxError \<and>
   load_app_state parse storage = Inl SyntaxError \<and>
   load_effect parse (Some text) current = emptyLoaded"
  by (simp add: useState_initializer_def load_app_state_def load_effect_def load_saved_def
      and_then_def)

theorem initializer_throws_on_malformed_witness:
  "sampleParse ''{'' = Inl SyntaxError \<and>
   sampleStorage ''{'' ''saasNameGenState'' = Some ''{'' \<and>
   load_app_state sampleParse (sampleStorage ''{'') = Inl SyntaxError \<and>
   load_effect sampleParse (Some ''{'') emptyLoaded = emptyLoaded"
proof -
  have a: "sampleParse ''{'' = Inl SyntaxError" by (simp add: sampleParse_def)
  have b: "''{'' \<noteq> []" by simp
  have c: "sampleStorage ''{'' ''saasNameGenState'' = Some ''{''" by (simp add: sampleStorage_def)
  from initializer_throws_on_malformed
    [of sampleParse "''{''" "sampleStorage ''{''" emptyLoaded, OF a b c] a c
  show ?thesis by simp
qed

lemma effect_falls_back_to_empty:
  "text \<noteq> [] \<Longrightarrow> load_saved parse text = Inl err \<Longrightarrow>
   load_effect parse (Some text) current = emptyLoaded"
  by (simp add: load_effect_def)

subsection \<open>Migration of the legacy format\<close>

lemma read_set_prop:
  "read_prop (JObj (set_prop k x kvs)) k' = (if k' = k then x else read_prop (JObj kvs) k')"
  by (simp add: read_prop_def set_prop_def update_conv')

lemma set_prop_same: "read_prop (JObj kvs) k = x \<Longrightarrow> x \<noteq> JUndefined \<Longrightarrow> set_prop k x kvs = kvs"
  by (auto simp: read_prop_def set_prop_def split: option.splits intro: update_triv)

lemma js_or_idem: "js_or (js_or a b) b = js_or a b"
  by (simp add: js_or_def)

lemma truthy_read_obj: "truthy (read_prop v k) \<Longrightarrow> JObj (spread v) = v"
  by (cases v) (auto simp: read_prop_def spread_def)

lemma js_or_defined: "b \<noteq> JUndefined \<Longrightarrow> js_or a b \<noteq> JUndefined"
  by (auto simp: js_or_def)

lemma migrate_entry_idem:
  assumes "migrate_entry v = Inr w"
  shows "migrate_entry w = Inr w"
proof -
  from assms have nn: "\<not> nullish v"
    by (auto simp: migrate_entry_def and_then_def get_prop_def split: if_splits)
  define r where "r = js_or (read_prop v ''rating'') (JNum 0)"
  define c where "c = js_or (read_prop v ''ratingComment'') (JStr [])"
  define base where "base = set_prop ''ratingComment'' c (set_prop ''rating'' r (spread v))"
  have rr: "js_or r (JNum 0) = r" and cc: "js_or c (JStr []) = c"
    by (simp_all add: r_def c_def js_or_idem)
  have rdef: "r \<noteq> JUndefined" and cdef: "c \<noteq> JUndefined"
    by (simp_all add: r_def c_def js_or_defined)
  have keep: "\<And>kvs. read_prop (JObj kvs) ''rating'' = r \<Longrightarrow>
      read_prop (JObj kvs) ''ratingComment'' = c \<Longrightarrow>
      set_prop ''ratingComment'' (js_or (read_prop (JObj kvs) ''ratingComment'') (JStr []))
        (set_prop ''rating'' (js_or (read_prop (JObj kvs) ''rating'') (JNum 0)) kvs) = kvs"
    using rr cc rdef cdef by (simp add: set_prop_same)
  show ?thesis
  proof (cases "truthy (read_prop v ''domains'')")
    case True
    with assms nn have w: "w = JObj base"
      by (simp add: migrate_entry_def and_then_def get_prop_def base_def r_def c_def)
    have d: "read_prop (JObj base) ''domains'' = read_prop v ''domains''"
      using truthy_read_obj [OF True] by (simp add: base_def read_set_prop)
    have "read_prop (JObj base) ''rating'' = r" "read_prop (JObj base) ''ratingComment'' = c"
      by (simp_all add: base_def read_set_prop)
    from keep [OF this] d True show ?thesis
      by (simp add: w migrate_entry_def and_then_def get_prop_def nullish_def spread_def)
  next
    case False
    define dm where "dm = JObj [(''.com'', js_or (read_prop v ''domainStatus'') (JStr ''unknown''))]"
    from False assms nn have w: "w = JObj (set_prop ''domains'' dm base)"
      by (simp add: migrate_entry_def and_then_def get_prop_def base_def r_def c_def dm_def)
    have d: "truthy (read_prop (JObj (set_prop ''domains'' dm base)) ''domains'')"
      by (simp add: read_set_prop dm_def)
    have "read_prop (JObj (set_prop ''domains'' dm base)) ''rating'' = r"
      "read_prop (JObj (set_prop ''domains'' dm base)) ''ratingComment'' = c"
      by (simp_all add: base_def read_set_prop)
    from keep [OF this] d show ?thesis
      by (simp add: w migrate_entry_def and_then_def get_prop_def nullish_def spread_def)
  qed
qed

lemma map_throwing_idem:
  "map_throwing migrate_entry xs = Inr ys \<Longrightarrow> map_throwing migrate_entry ys = Inr ys"
proof (induction xs arbitrary: ys)
  case Nil
  then show ?case by simp
next
  case (Cons x xs)
  then obtain y ys' where y: "migrate_entry x = Inr y"
    and r: "map_throwing migrate_entry xs = Inr ys'" and ys: "ys = y # ys'"
    by (auto simp: and_then_def split: sum.splits)
  from migrate_entry_idem [OF y] Cons.IH [OF r] show ?case
    by (simp add: ys and_then_def)
qed

text \<open>
  C9, as stated, fails: the record migrated from \<^verbatim>\<open>{name: "Acme", domainStatus: "taken"}\<close>
  is not \<^verbatim>\<open>{name, rating: 0, ratingComment: "", domains: {".com": "taken"}}\<close>: it
  still holds the legacy field \<^verbatim>\<open>domainStatus\<close>.
\<close>

theorem legacy_migration_keeps_status:
  "migrateOldData (JArr [JObj [(''name'', JStr ''Acme''), (''domainStatus'', JStr ''taken'')]]) =
     Inr (JArr [JObj [(''name'', JStr ''Acme''), (''domainStatus'', JStr ''taken''),
                      (''rating'', JNum 0), (''ratingComment'', JStr []),
                      (''domains'', JObj [(''.com'', JStr ''taken'')])]]) \<and>
   migrateOldData (JArr [JObj [(''name'', JStr ''Acme''), (''domainStatus'', JStr ''taken'')]]) \<noteq>
     Inr (JArr [JObj [(''name'', JStr ''Acme''), (''rating'', JNum 0), (''ratingComment'', JStr []),
                      (''domains'', JObj [(''.com'', JStr ''taken'')])]])"
  by (simp add: migrateOldData_def migrate_entry_def and_then_def get_prop_def nullish_def
      read_prop_def js_or_def spread_def set_prop_def)

text \<open>
  C9, amended. A stored record with only \<^verbatim>\<open>{name, domainStatus: "taken"}\<close> migrates to
  \<^verbatim>\<open>{name, domainStatus: "taken", rating: 0, ratingComment: "", domains: {".com": "taken"}}\<close>,
  the legacy field kept; and migrating what a migration returned gives it back unchanged.
\<close>

theorem legacy_migration:
  "migrateOldData (JArr [JObj [(''name'', nm), (''domainStatus'', JStr ''taken'')]]) =
     Inr (JArr [JObj [(''name'', nm), (''domainStatus'', JStr ''taken''), (''rating'', JNum 0),
                      (''ratingComment'', JStr []),
                      (''domains'', JObj [(''.com'', JStr ''taken'')])]]) \<and>
   (migrateOldData stored = Inr migrated \<longrightarrow> migrateOldData migrated = Inr migrated)"
proof
  show "migrateOldData (JArr [JObj [(''name'', nm), (''domainStatus'', JStr ''taken'')]]) =
     Inr (JArr [JObj [(''name'', nm), (''domainStatus'', JStr ''taken''), (''rating'', JNum 0),
                      (''ratingComment'', JStr []),
                      (''domains'', JObj [(''.com'', JStr ''taken'')])]])"
    by (simp add: migrateOldData_def migrate_entry_def and_then_def get_prop_def nullish_def
        read_prop_def js_or_def spread_def set_prop_def)
  show "migrateOldData stored = Inr migrated \<longrightarrow> migrateOldData migrated = Inr migrated"
    by (cases stored) (auto simp: migrateOldData_def and_then_def split: sum.splits
        dest: map_throwing_idem)
qed

theorem legacy_migration_witness:
  "migrateOldData (JArr [JObj [(''name'', JStr ''Acme''), (''domainStatus'', JStr ''taken'')]]) =
     Inr (JArr [JObj [(''name'', JStr ''Acme''), (''domainStatus'', JStr ''taken''),
                      (''rating'', JNum 0), (''ratingComment'', JStr []),
                      (''domains'', JObj [(''.com'', JStr ''taken'')])]]) \<and>
   migrateOldData (JArr [JObj [(''name'', JStr ''Acme''), (''domainStatus'', JStr ''taken''),
                      (''rating'', JNum 0), (''ratingComment'', JStr []),
                      (''domains'', JObj [(''.com'', JStr ''taken'')])]]) =
     Inr (JArr [JObj [(''name'', JStr ''Acme''), (''domainStatus'', JStr ''taken''),
                      (''rating'', JNum 0), (''ratingComment'', JStr []),
                      (''domains'', JObj [(''.com'', JStr ''taken'')])]])"
  using legacy_migration [of "JStr ''Acme''"
      "JArr [JObj [(''name'', JStr ''Acme''), (''domainStatus'', JStr ''taken'')]]"
      "JArr [JObj [(''name'', JStr ''Acme''), (''domainStatus'', JStr ''taken''),
                      (''rating'', JNum 0), (''ratingComment'', JStr []),
                      (''domains'', JObj [(''.com'', JStr ''taken'')])]]"]
  by blast

subsection \<open>Further properties of the pipeline\<close>

text \<open>
  The estimator never answers \<open>Unknown\<close>, every blocklisted domain is \<open>Taken\<close>, and
  for a domain with a single dot the name portion and the extension are its two parts.
  The prober returns the ten extensions in their declared order. A run that shows the
  success toast has merged its batch into the history, a run that shows the error toast
  has left the state alone. The end-to-end scenario of the specification gives the three
  candidates and no fallback call. The trailing-junk replacement removes the longest
  junk suffix.
\<close>

lemma estimator_never_unknown: "checkDomainAvailability domain \<noteq> Unknown"
  by (simp add: checkDomainAvailability_def Let_def)

lemma blocklist_totality: "list_all (\<lambda>d. checkDomainAvailability d = Taken) definitelyTaken"
  by code_simp

lemma single_dot_domain:
  assumes "CHR ''.'' \<notin> set n" and "CHR ''.'' \<notin> set x"
  shows "name_portion (n @ ''.'' @ x) = n \<and> extension_of (n @ ''.'' @ x) = x"
proof -
  from assms(1) have "takeWhile (\<lambda>c. c \<noteq> CHR ''.'') (n @ CHR ''.'' # x) = n"
    by (subst takeWhile_append2) auto
  moreover from assms(2) have "takeWhile (\<lambda>c. c \<noteq> CHR ''.'') (rev x @ CHR ''.'' # rev n) = rev x"
    by (subst takeWhile_append2) auto
  ultimately show ?thesis by (simp add: name_portion_def extension_of_def)
qed

lemma prober_covers_extensions:
  "map fst (checkMultipleDomains n) = extensions \<and> length (checkMultipleDomains n) = 10"
  by (simp add: checkMultipleDomains_def Let_def comp_def extensions_def)

lemma generateName_merges:
  "toast (generateName e svc p prev) = Generated n \<Longrightarrow>
   \<exists>batch. length batch = n \<and> new_state (generateName e svc p prev) = mergeHistory batch prev"
  by (auto simp: generateName_def call_service_def Let_def split: sum.splits if_splits)

lemma generateName_failure_keeps_state:
  "toast (generateName e svc p prev) = FailedToGenerate \<Longrightarrow>
   new_state (generateName e svc p prev) = prev"
  by (auto simp: generateName_def call_service_def Let_def split: sum.splits if_splits)

lemma end_to_end_scenario:
  "map name (primary_candidates sampleEnv sampleParams scenarioResponse) =
     [''CloudFlow'', ''DataSync'', ''TeamHub''] \<and>
   list_all (\<lambda>c. map fst (domains c) = extensions)
     (primary_candidates sampleEnv sampleParams scenarioResponse) \<and>
   service_calls (generateName sampleEnv scenarioService sampleParams emptyState) =
     [primaryPrompt sampleParams] \<and>
   toast (generateName sampleEnv scenarioService sampleParams emptyState) = Generated 3"
  by code_simp

lemma strip_trailing_suffix: "strip_trailing s = rev (dropWhile is_trailing_junk (rev s))"
proof (induction s)
  case Nil
  then show ?case by simp
next
  case (Cons x xs)
  show ?case
  proof (cases "list_all is_trailing_junk (x # xs)")
    case True
    then have "dropWhile is_trailing_junk (rev xs @ [x]) = []"
      by (auto simp: list_all_iff)
    with True show ?thesis by simp
  next
    case False
    then have "dropWhile is_trailing_junk (rev xs @ [x]) =
      (if list_all is_trailing_junk xs then [x] else dropWhile is_trailing_junk (rev xs) @ [x])"
      by (auto simp: dropWhile_append list_all_iff)
    with False Cons show ?thesis by (auto simp: list_all_iff)
  qed
qed

end
